theory Spec2Isabelle
  imports Complex_Main "HOL-Library.Sublist"
begin

section \<open>Python values, exceptions and strings\<close>

text \<open>
  The backend (\<^verbatim>\<open>src/backend/app.py\<close>) receives JSON values from Flask and hands them to
  helpers that call string and dictionary methods on them. A value that lacks the method
  raises \<^verbatim>\<open>AttributeError\<close>, so the values are a datatype and every method returns a sum:
  \<open>Inl\<close> is the exception raised, \<open>Inr\<close> the value returned.

  Python floats are modelled as reals. Strings are byte sequences (UTF-8); white space and
  letter case are those of the ASCII range, which is all the keywords of the source use.
\<close>

datatype pyval =
    PyNone
  | PyBool bool
  | PyInt int
  | PyFloat real
  | PyStr string
  | PyList "pyval list"
  | PyDict "(string \<times> pyval) list"

datatype py_error =
    AttributeError
  | TypeError
  | OSError
  | FileNotFoundError
  | UnicodeEncodeError
  | TimeoutExpired
  | HTTPException
  | HfHubHTTPError
  | RuntimeError


text \<open>\<^verbatim>\<open>str.isspace\<close> on one ASCII character: TAB..CR, FS..US and the blank.\<close>

definition py_isspace :: "char \<Rightarrow> bool" where
  "py_isspace c = (let n = (of_char c :: nat) in (9 \<le> n \<and> n \<le> 13) \<or> (28 \<le> n \<and> n \<le> 32))"

text \<open>\<^verbatim>\<open>s.strip()\<close>: white space removed at both ends.\<close>

definition str_strip :: "string \<Rightarrow> string" where
  "str_strip s = rev (dropWhile py_isspace (rev (dropWhile py_isspace s)))"

text \<open>
  \<^verbatim>\<open>s.lower()\<close>: the letters A..Z (codes 65..90) get bit 5 set, which adds 32; every other
  byte is kept.
\<close>

fun lower_char :: "char \<Rightarrow> char" where
  "lower_char (Char b0 b1 b2 b3 b4 b5 b6 b7) =
     (let n = (of_char (Char b0 b1 b2 b3 b4 b5 b6 b7) :: nat)
      in if 65 \<le> n \<and> n \<le> 90 then Char b0 b1 b2 b3 b4 True b6 b7
         else Char b0 b1 b2 b3 b4 b5 b6 b7)"

definition str_lower :: "string \<Rightarrow> string" where
  "str_lower s = map lower_char s"

text \<open>\<^verbatim>\<open>kw in s\<close> on strings: \<open>kw\<close> occurs in \<open>s\<close> as a contiguous run.\<close>

fun str_in :: "string \<Rightarrow> string \<Rightarrow> bool" where
  "str_in kw [] = (kw = [])"
| "str_in kw (c # cs) = (prefix kw (c # cs) \<or> str_in kw cs)"

text \<open>
  \<^verbatim>\<open>s.replace(old, new)\<close> for a non-empty \<open>old\<close>: the occurrences are replaced from the left,
  without overlap. (The source only replaces non-empty strings.)
\<close>

function str_replace :: "string \<Rightarrow> string \<Rightarrow> string \<Rightarrow> string" where
  "str_replace old new [] = []"
| "str_replace old new (c # cs) =
     (if old \<noteq> [] \<and> prefix old (c # cs)
      then new @ str_replace old new (drop (length old) (c # cs))
      else c # str_replace old new cs)"
  by pat_completeness auto
termination
  by (relation "measure (\<lambda>(old, new, s). length s)") (auto simp: neq_Nil_conv)

text \<open>The methods, on any value: only a \<^verbatim>\<open>str\<close> has \<^verbatim>\<open>strip\<close> and \<^verbatim>\<open>lower\<close>, only a \<^verbatim>\<open>dict\<close> has \<^verbatim>\<open>get\<close>.\<close>

fun py_strip :: "pyval \<Rightarrow> py_error + string" where
  "py_strip (PyStr s) = Inr (str_strip s)"
| "py_strip _ = Inl AttributeError"

fun py_lower :: "pyval \<Rightarrow> py_error + string" where
  "py_lower (PyStr s) = Inr (str_lower s)"
| "py_lower _ = Inl AttributeError"

fun py_get :: "pyval \<Rightarrow> string \<Rightarrow> pyval \<Rightarrow> py_error + pyval" where
  "py_get (PyDict kvs) k dflt = Inr (case map_of kvs k of None \<Rightarrow> dflt | Some v \<Rightarrow> v)"
| "py_get _ k dflt = Inl AttributeError"

section \<open>Language detection\<close>

text \<open>
  \<^verbatim>\<open>detect_language(code, prompt="")\<close>. The keyword tests run on the lower-cased code. The
  last \<^verbatim>\<open>elif\<close> evaluates \<^verbatim>\<open>code.strip() or prompt.strip()\<close>, so a prompt that is no
  string raises there when the code is blank; both outcomes of the test return "python".
\<close>

definition detect_language :: "pyval \<Rightarrow> pyval \<Rightarrow> py_error + string" where
  "detect_language code prompt =
     (case py_lower code of
        Inl e \<Rightarrow> Inl e
      | Inr code_lower \<Rightarrow>
          if list_ex (\<lambda>kw. str_in kw code_lower) [''#include'', ''int main'', ''printf'']
          then Inr ''c''
          else if str_in ''public class'' code_lower
          then Inr ''java''
          else if list_ex (\<lambda>kw. str_in kw code_lower) [''console.log'', ''function'']
          then Inr ''javascript''
          else if list_ex (\<lambda>kw. str_in kw code_lower) [''select'', ''from'', ''where'']
          then Inr ''sql''
          else (case py_strip code of
                  Inl e \<Rightarrow> Inl e
                | Inr code_stripped \<Rightarrow>
                    if code_stripped \<noteq> [] then Inr ''python''
                    else (case py_strip prompt of
                            Inl e \<Rightarrow> Inl e
                          | Inr prompt_stripped \<Rightarrow>
                              if prompt_stripped \<noteq> [] then Inr ''python'' else Inr ''python'')))"

section \<open>The power-profile probe\<close>

text \<open>
  What \<^verbatim>\<open>get_system_wattage\<close> reads from the host: \<^verbatim>\<open>psutil.cpu_count(logical=True)\<close> (an
  int, or \<^verbatim>\<open>None\<close> when undetermined), \<^verbatim>\<open>platform.system()\<close>, and the optional module
  \<^verbatim>\<open>GPUtil\<close>: \<open>None\<close> when its import failed, otherwise the outcome of \<^verbatim>\<open>getGPUs()\<close>, an
  exception or the \<^verbatim>\<open>memoryTotal\<close> of each GPU.
\<close>

record host =
  psutil_cpu_count :: "int option"
  platform_system :: string
  GPUtil :: "(py_error + real list) option"

text \<open>
  The body of the \<^verbatim>\<open>try\<close> block works on the two local variables and may stop early;
  \<^verbatim>\<open>except Exception: pass\<close> keeps whatever was assigned before the exception.
\<close>

definition wattage_try :: "host \<Rightarrow> real \<times> real \<Rightarrow> (real \<times> real) \<times> py_error option" where
  "wattage_try h vars =
     (let cpu_power_w = (if platform_system h = ''Windows'' then 65 else fst vars);
          gpu_power_w = snd vars
      in case GPUtil h of
           None \<Rightarrow> ((cpu_power_w, gpu_power_w), None)
         | Some (Inl e) \<Rightarrow> ((cpu_power_w, gpu_power_w), Some e)
         | Some (Inr gpus) \<Rightarrow>
             ((cpu_power_w,
               if gpus \<noteq> [] then sum_list (map (\<lambda>memoryTotal. memoryTotal * 0.5) gpus) else 0),
              None))"

definition get_system_wattage :: "host \<Rightarrow> py_error + (int option \<times> real \<times> real)" where
  "get_system_wattage h =
     (let cpu_count = psutil_cpu_count h;
          cpu_power_w = 45;
          gpu_power_w = 0;
          (cpu_power_w, gpu_power_w) = fst (wattage_try h (cpu_power_w, gpu_power_w))
      in Inr (cpu_count, cpu_power_w, gpu_power_w))"

section \<open>The generic timing loop\<close>

text \<open>
  What the operating system does is an input of the model. A call of \<^verbatim>\<open>subprocess.run\<close>
  either returns (with a return code, after an elapsed wall time that the caller may measure
  with \<^verbatim>\<open>time.time()\<close>) or raises (\<^verbatim>\<open>TimeoutExpired\<close>, \<^verbatim>\<open>FileNotFoundError\<close>, ...).
\<close>

datatype run_outcome =
    Completed int real
  | Raised py_error

text \<open>
  The state the code changes: the paths that exist on disk, the paths that this program (or
  the compiler it started) created, and the log of the \<^verbatim>\<open>subprocess.run\<close> calls made, each
  with its argument list and its timeout in seconds.
\<close>

record sys_state =
  disk :: "string set"
  created :: "string set"
  spawned :: "(string list \<times> nat) list"

definition subprocess_call :: "string list \<Rightarrow> nat \<Rightarrow> sys_state \<Rightarrow> sys_state" where
  "subprocess_call argv timeout st = st\<lparr>spawned := spawned st @ [(argv, timeout)]\<rparr>"

text \<open>
  One sample: lines 93 and 94 of the source. \<^verbatim>\<open>cpu_power_w * cpu_count\<close> raises
  \<^verbatim>\<open>TypeError\<close> when the CPU count is \<^verbatim>\<open>None\<close>.
\<close>

definition sample_co2 :: "int option \<times> real \<times> real \<Rightarrow> real \<Rightarrow> py_error + real" where
  "sample_co2 profile elapsed =
     (case profile of (cpu_count, cpu_power_w, gpu_power_w) \<Rightarrow>
        (case cpu_count of
           None \<Rightarrow> Inl TypeError
         | Some n \<Rightarrow>
             (let energy_kwh = ((cpu_power_w * real_of_int n) + gpu_power_w) * elapsed / 3600;
                  co2_kg = energy_kwh * 0.475
              in Inr co2_kg)))"

text \<open>
  The \<^verbatim>\<open>for\<close> loop over \<^verbatim>\<open>range(num_runs)\<close>, on the list of the indices still to run. The
  \<open>i\<close>-th run behaves as \<open>runs i\<close>. The result holds the exception that left the loop, if
  any, the list of samples at that moment, and the state.
\<close>

fun for_runs ::
  "int option \<times> real \<times> real \<Rightarrow> (nat \<Rightarrow> run_outcome) \<Rightarrow> string list \<Rightarrow> nat list \<Rightarrow>
   real list \<Rightarrow> sys_state \<Rightarrow> py_error option \<times> real list \<times> sys_state" where
  "for_runs profile runs executable [] emissions_list st = (None, emissions_list, st)"
| "for_runs profile runs executable (i # rest) emissions_list st =
     (let st' = subprocess_call executable 300 st
      in case runs i of
           Raised e \<Rightarrow> (Some e, emissions_list, st')
         | Completed returncode elapsed \<Rightarrow>
             (case sample_co2 profile elapsed of
                Inl e \<Rightarrow> (Some e, emissions_list, st')
              | Inr co2_kg \<Rightarrow>
                  for_runs profile runs executable rest (emissions_list @ [co2_kg]) st'))"

text \<open>\<^verbatim>\<open>range(n)\<close> is empty for \<open>n \<le> 0\<close>.\<close>

definition py_range :: "int \<Rightarrow> nat list" where
  "py_range n = [0..<nat n]"

text \<open>\<^verbatim>\<open>statistics.mean\<close>, called on a non-empty list only.\<close>

definition statistics_mean :: "real list \<Rightarrow> real" where
  "statistics_mean xs = sum_list xs / real (length xs)"

text \<open>
  \<^verbatim>\<open>universal_emissions_tracker(executable, num_runs=3)\<close>: the probe is called before the
  \<^verbatim>\<open>try\<close>; the handler of the \<^verbatim>\<open>try\<close> around the whole loop returns 0.0.
\<close>

definition universal_emissions_tracker ::
  "host \<Rightarrow> (nat \<Rightarrow> run_outcome) \<Rightarrow> string list \<Rightarrow> int \<Rightarrow> sys_state \<Rightarrow>
   (py_error + real) \<times> sys_state" where
  "universal_emissions_tracker h runs executable num_runs st =
     (case get_system_wattage h of
        Inl e \<Rightarrow> (Inl e, st)
      | Inr profile \<Rightarrow>
          (case for_runs profile runs executable (py_range num_runs) [] st of
             (Some e, emissions_list, st') \<Rightarrow> (Inr 0, st')
           | (None, emissions_list, st') \<Rightarrow>
               (Inr (if emissions_list \<noteq> [] then statistics_mean emissions_list else 0), st')))"

section \<open>The estimator\<close>

text \<open>
  The outcomes of the operations of one call of \<^verbatim>\<open>run_code_and_track_emissions\<close>:
  \<^item> \<open>mktemp\<close>: \<^verbatim>\<open>NamedTemporaryFile(suffix=..., delete=False)\<close> raises, or creates the file
    whose name is the returned directory-and-random part followed by the suffix;
  \<^item> \<open>write_error\<close>: the exception of \<^verbatim>\<open>f.write\<close>, \<^verbatim>\<open>f.flush\<close> or of closing the file, if any;
  \<^item> \<open>tracker_start\<close>: the exception of creating and starting the \<^verbatim>\<open>EmissionsTracker\<close>, if any;
  \<^item> \<open>py_run\<close>: the run of the wrapped Python script;
  \<^item> \<open>tracker_stop\<close>: \<^verbatim>\<open>tracker.stop()\<close> raises, or returns \<^verbatim>\<open>None\<close> or a float;
  \<^item> \<open>gcc_run\<close>: the run of the compiler, and \<open>gcc_wrote_output\<close>: whether it left a file at
    the path given after \<^verbatim>\<open>-o\<close> (no file has the empty path);
  \<^item> \<open>runs\<close>: the runs of the generic timing loop.
  The text written to the file (the template around the Python code, the result of
  \<^verbatim>\<open>clean_code\<close> for C) is not part of the state: it only reaches the subprocesses, whose
  outcomes are inputs here. \<^verbatim>\<open>clean_code\<close> returns a string for every string.
\<close>

record env =
  the_host :: host
  sys_executable :: string
  mktemp :: "py_error + string"
  write_error :: "py_error option"
  tracker_start :: "py_error option"
  py_run :: run_outcome
  tracker_stop :: "py_error + real option"
  gcc_run :: run_outcome
  gcc_wrote_output :: bool
  runs :: "nat \<Rightarrow> run_outcome"

text \<open>The local variables \<^verbatim>\<open>temp_file\<close> and \<^verbatim>\<open>exec_file\<close>; \<open>None\<close> is Python's \<^verbatim>\<open>None\<close>.\<close>

type_synonym locals = "string option \<times> string option"

definition named_temporary_file :: "string \<Rightarrow> sys_state \<Rightarrow> sys_state" where
  "named_temporary_file name st =
     st\<lparr>disk := insert name (disk st), created := insert name (created st)\<rparr>"

text \<open>The branch for \<^verbatim>\<open>language == "python"\<close>, lines 110 to 140.\<close>

definition python_branch ::
  "env \<Rightarrow> pyval \<Rightarrow> sys_state \<Rightarrow> locals \<times> sys_state \<times> (py_error + real)" where
  "python_branch ev test_params st =
     (case py_get test_params ''function_name'' (PyStr ''dummy_function'') of
        Inl e \<Rightarrow> ((None, None), st, Inl e)
      | Inr function_name \<Rightarrow>
     (case py_get test_params ''data_size'' (PyInt 1000) of
        Inl e \<Rightarrow> ((None, None), st, Inl e)
      | Inr data_size \<Rightarrow>
     (case mktemp ev of
        Inl e \<Rightarrow> ((None, None), st, Inl e)
      | Inr stem \<Rightarrow>
          (let temp_file = stem @ ''.py'';
               st1 = named_temporary_file temp_file st
           in case write_error ev of
                Some e \<Rightarrow> ((Some temp_file, None), st1, Inl e)
              | None \<Rightarrow>
             (case tracker_start ev of
                Some e \<Rightarrow> ((Some temp_file, None), st1, Inl e)
              | None \<Rightarrow>
                  (let st2 = subprocess_call [sys_executable ev, temp_file] 300 st1
                   in case py_run ev of
                        Raised e \<Rightarrow> ((Some temp_file, None), st2, Inl e)
                      | Completed returncode elapsed \<Rightarrow>
                     (case tracker_stop ev of
                        Inl e \<Rightarrow> ((Some temp_file, None), st2, Inl e)
                      | Inr emissions \<Rightarrow>
                          ((Some temp_file, None), st2,
                           Inr (case emissions of
                                  None \<Rightarrow> 0
                                | Some v \<Rightarrow> if v \<noteq> 0 then v else 0)))))))))"

text \<open>The branch for \<^verbatim>\<open>language in ["c", "cpp"]\<close>, lines 143 to 154.\<close>

definition c_branch ::
  "env \<Rightarrow> string \<Rightarrow> sys_state \<Rightarrow> locals \<times> sys_state \<times> (py_error + real)" where
  "c_branch ev language st =
     (let suffix = (if language = ''c'' then ''.c'' else ''.cpp'')
      in case mktemp ev of
           Inl e \<Rightarrow> ((None, None), st, Inl e)
         | Inr stem \<Rightarrow>
             (let temp_file = stem @ suffix;
                  st1 = named_temporary_file temp_file st
              in case write_error ev of
                   Some e \<Rightarrow> ((Some temp_file, None), st1, Inl e)
                 | None \<Rightarrow>
                     (let exec_file = str_replace suffix [] temp_file;
                          st2 = subprocess_call [''gcc'', temp_file, ''-o'', exec_file] 120 st1;
                          st3 = (if gcc_wrote_output ev \<and> exec_file \<noteq> []
                                 then st2\<lparr>disk := insert exec_file (disk st2),
                                          created := insert exec_file (created st2)\<rparr>
                                 else st2)
                      in case gcc_run ev of
                           Raised e \<Rightarrow> ((Some temp_file, Some exec_file), st3, Inl e)
                         | Completed returncode elapsed \<Rightarrow>
                             if returncode \<noteq> 0
                             then ((Some temp_file, Some exec_file), st3, Inr 0)
                             else (case universal_emissions_tracker (the_host ev) (runs ev)
                                          [exec_file] 3 st3 of
                                     (r, st4) \<Rightarrow> ((Some temp_file, Some exec_file), st4, r)))))"

text \<open>The body of the \<^verbatim>\<open>try\<close> block, lines 108 to 156.\<close>

definition try_body ::
  "env \<Rightarrow> pyval \<Rightarrow> pyval \<Rightarrow> sys_state \<Rightarrow> locals \<times> sys_state \<times> (py_error + real)" where
  "try_body ev test_params language st =
     (case py_lower language of
        Inl e \<Rightarrow> ((None, None), st, Inl e)
      | Inr language \<Rightarrow>
          if language = ''python'' then python_branch ev test_params st
          else if language \<in> set [''c'', ''cpp''] then c_branch ev language st
          else (case universal_emissions_tracker (the_host ev) (runs ev) [''echo'', ''ok''] 3 st of
                  (r, st') \<Rightarrow> ((None, None), st', r)))"

text \<open>
  The \<^verbatim>\<open>finally\<close> block, lines 161 to 164: \<^verbatim>\<open>os.remove\<close> of a path that exists takes it
  off the disk.
\<close>

definition remove_if_exists :: "string option \<Rightarrow> sys_state \<Rightarrow> sys_state" where
  "remove_if_exists path st =
     (case path of
        None \<Rightarrow> st
      | Some p \<Rightarrow> if p \<noteq> [] \<and> p \<in> disk st then st\<lparr>disk := disk st - {p}\<rparr> else st)"

definition finally_block :: "locals \<Rightarrow> sys_state \<Rightarrow> sys_state" where
  "finally_block vars st =
     (case vars of (temp_file, exec_file) \<Rightarrow>
        remove_if_exists exec_file (remove_if_exists temp_file st))"

text \<open>
  \<^verbatim>\<open>run_code_and_track_emissions(code, test_params, language)\<close>. The test of
  \<^verbatim>\<open>code.strip()\<close> stands before the \<^verbatim>\<open>try\<close>: its exception leaves the function. An
  exception of the body is handled by \<^verbatim>\<open>except Exception\<close>, which returns 0.0; the
  \<^verbatim>\<open>finally\<close> block runs on every way out of the \<^verbatim>\<open>try\<close>.
\<close>

definition run_code_and_track_emissions ::
  "env \<Rightarrow> pyval \<Rightarrow> pyval \<Rightarrow> pyval \<Rightarrow> sys_state \<Rightarrow> (py_error + real) \<times> sys_state" where
  "run_code_and_track_emissions ev code test_params language st =
     (case py_strip code of
        Inl e \<Rightarrow> (Inl e, st)
      | Inr stripped \<Rightarrow>
          if stripped = [] then (Inr 0, st)
          else (case try_body ev test_params language st of
                  (vars, st', Inl e) \<Rightarrow> (Inr 0, finally_block vars st')
                | (vars, st', Inr v) \<Rightarrow> (Inr v, finally_block vars st')))"

section \<open>The endpoint \<^verbatim>\<open>POST /optimize\<close>\<close>







definition test_case_params :: pyval where
  "test_case_params =
     PyDict [(''function_name'', PyStr ''find_first_occurrence''), (''data_size'', PyInt 1000000)]"




section \<open>Concrete hosts, runs and environments\<close>

text \<open>Inputs on which the results below are evaluated.\<close>

definition linux_host :: host where
  "linux_host = \<lparr>psutil_cpu_count = Some 4, platform_system = ''Linux'', GPUtil = None\<rparr>"

definition windows_gpu_host :: host where
  "windows_gpu_host =
     \<lparr>psutil_cpu_count = Some 4, platform_system = ''Windows'', GPUtil = Some (Inr [8192, 4096])\<rparr>"

definition init_state :: sys_state where
  "init_state = \<lparr>disk = {}, created = {}, spawned = []\<rparr>"

definition steady_runs :: "real \<Rightarrow> nat \<Rightarrow> run_outcome" where
  "steady_runs t i = Completed 0 t"

definition second_run_times_out :: "nat \<Rightarrow> run_outcome" where
  "second_run_times_out i = (if i = 1 then Raised TimeoutExpired else Completed 0 3600)"

definition compiling_env :: env where
  "compiling_env =
     \<lparr>the_host = linux_host, sys_executable = ''/usr/bin/python3'',
      mktemp = Inr ''/tmp/tmpk3v9x_q2'', write_error = None, tracker_start = None,
      py_run = Completed 0 1, tracker_stop = Inr (Some (1 / 1000)),
      gcc_run = Completed 0 2, gcc_wrote_output = True, runs = steady_runs 3600\<rparr>"

definition failing_gcc_env :: env where
  "failing_gcc_env = compiling_env\<lparr>gcc_run := Completed 1 2, gcc_wrote_output := False\<rparr>"

definition java_printf_source :: string where
  "java_printf_source = ''public class A { void f() { System.out.printf(1); } }''"




section \<open>Basic facts\<close>

lemma str_in_sublist: "str_in kw s = sublist kw s"
  by (induction s) (simp_all add: sublist_Cons_right)

lemma get_system_wattage_unfold:
  "get_system_wattage h =
     Inr (psutil_cpu_count h,
          (if platform_system h = ''Windows'' then 65 else 45),
          (case GPUtil h of
             None \<Rightarrow> 0
           | Some (Inl e) \<Rightarrow> 0
           | Some (Inr gpus) \<Rightarrow> (\<Sum>memoryTotal\<leftarrow>gpus. memoryTotal * 0.5)))"
  by (simp add: get_system_wattage_def wattage_try_def split: option.split sum.split)

section \<open>Language detection: claim C6\<close>

text \<open>
  Claim C6, as the code has it. \<^verbatim>\<open>detect_language\<close> looks at the lower-cased code and goes
  through the keyword groups in this order: \<^verbatim>\<open>#include\<close>, \<^verbatim>\<open>int main\<close> or \<^verbatim>\<open>printf\<close> give
  "c"; else \<^verbatim>\<open>public class\<close> gives "java"; else \<^verbatim>\<open>console.log\<close> or \<^verbatim>\<open>function\<close> give
  "javascript"; else \<^verbatim>\<open>select\<close>, \<^verbatim>\<open>from\<close> or \<^verbatim>\<open>where\<close> give "sql"; else the answer is
  "python". For the code \<^verbatim>\<open>#include <stdio.h> int main(){}\<close> the answer is "c".
\<close>

theorem detect_language_precedence:
  "detect_language (PyStr code) (PyStr prompt) =
     Inr (if sublist ''#include'' (str_lower code) \<or> sublist ''int main'' (str_lower code)
             \<or> sublist ''printf'' (str_lower code) then ''c''
          else if sublist ''public class'' (str_lower code) then ''java''
          else if sublist ''console.log'' (str_lower code) \<or> sublist ''function'' (str_lower code)
          then ''javascript''
          else if sublist ''select'' (str_lower code) \<or> sublist ''from'' (str_lower code)
             \<or> sublist ''where'' (str_lower code) then ''sql''
          else ''python'') \<and>
   detect_language (PyStr ''#include <stdio.h> int main(){}'') (PyStr []) = Inr ''c''"
  by (simp add: detect_language_def str_in_sublist str_lower_def sublist_Cons_right)

theorem detect_language_precedence_witness:
  "detect_language (PyStr ''SELECT name FROM t'') (PyStr []) = Inr ''sql''"
  using detect_language_precedence [of "''SELECT name FROM t''" "[]"]
  by (simp add: str_lower_def sublist_Cons_right)

text \<open>
  Claim C6 as it is written gives "java" to a text that contains \<^verbatim>\<open>public class\<close> and neither
  \<^verbatim>\<open>#include\<close> nor \<^verbatim>\<open>int main\<close>. The code answers "c" for such a text when it calls
  \<^verbatim>\<open>printf\<close>.
\<close>

theorem detect_language_printf_counterexample:
  "sublist ''public class'' java_printf_source \<and>
   \<not> sublist ''#include'' java_printf_source \<and>
   \<not> sublist ''int main'' java_printf_source \<and>
   detect_language (PyStr java_printf_source) (PyStr []) = Inr ''c''"
  by (simp add: java_printf_source_def detect_language_def str_lower_def sublist_Cons_right)

section \<open>The power-profile probe: claim C8\<close>

text \<open>
  Claim C8. \<^verbatim>\<open>get_system_wattage\<close> never raises. It returns the CPU count of the host, 65
  watts per CPU when \<^verbatim>\<open>platform.system()\<close> is "Windows" and 45 otherwise, and as GPU watts:
  0 when \<^verbatim>\<open>GPUtil\<close> is absent, 0 when the enumeration raises, and otherwise the sum of
  \<^verbatim>\<open>memoryTotal * 0.5\<close> over the GPUs found.
\<close>

theorem get_system_wattage_profile:
  "get_system_wattage h =
     Inr (psutil_cpu_count h,
          (if platform_system h = ''Windows'' then 65 else 45),
          (case GPUtil h of
             None \<Rightarrow> 0
           | Some (Inl e) \<Rightarrow> 0
           | Some (Inr gpus) \<Rightarrow> (\<Sum>memoryTotal\<leftarrow>gpus. memoryTotal * 0.5)))"
  by (cases "GPUtil h") (auto simp: get_system_wattage_def wattage_try_def split: sum.split)

theorem get_system_wattage_profile_witness:
  "get_system_wattage windows_gpu_host = Inr (Some 4, 65, 6144) \<and>
   get_system_wattage linux_host = Inr (Some 4, 45, 0)"
  using get_system_wattage_profile [of windows_gpu_host] get_system_wattage_profile [of linux_host]
  by (simp add: windows_gpu_host_def linux_host_def)

section \<open>The timing loop without runs: claim C10\<close>

text \<open>
  Claim C10. For \<open>num_runs \<le> 0\<close> the timing loop returns exactly 0.0 and leaves the state as
  it was: no call of \<^verbatim>\<open>subprocess.run\<close> is logged. The mean of the empty list is never taken.
\<close>

theorem no_runs_no_subprocess:
  "num_runs \<le> 0 \<Longrightarrow>
   universal_emissions_tracker h outcomes executable num_runs st = (Inr 0, st)"
  by (simp add: universal_emissions_tracker_def get_system_wattage_unfold py_range_def)

theorem no_runs_no_subprocess_witness:
  "(-2::int) \<le> 0 \<and>
   universal_emissions_tracker linux_host (steady_runs 5) [''echo'', ''ok''] (-2) init_state
     = (Inr 0, init_state)"
  using no_runs_no_subprocess [of "-2" linux_host "steady_runs 5" "[''echo'', ''ok'']" init_state]
  by simp

section \<open>Facts about the timing loop\<close>

lemma for_runs_all_completed:
  "\<forall>i\<in>set idxs. outcomes i = Completed (rc i) (t i) \<Longrightarrow>
   for_runs (Some n, p, g) outcomes exe idxs acc st =
     (None,
      acc @ map (\<lambda>i. (p * real_of_int n + g) * t i / 3600 * 0.475) idxs,
      st\<lparr>spawned := spawned st @ replicate (length idxs) (exe, 300)\<rparr>)"
proof (induction idxs arbitrary: acc st)
  case Nil
  then show ?case by simp
next
  case (Cons i rest)
  then show ?case
    by (simp add: sample_co2_def subprocess_call_def replicate_append_same)
qed


lemma for_runs_spawned:
  "for_runs profile outcomes exe idxs acc st = (exc, out, st') \<Longrightarrow>
   \<exists>k\<le>length idxs. spawned st' = spawned st @ replicate k (exe, 300)
      \<and> disk st' = disk st \<and> created st' = created st"
proof (induction idxs arbitrary: acc st)
  case Nil
  then show ?case by simp
next
  case (Cons a rest)
  show ?case
  proof (cases "outcomes a")
    case (Raised e)
    with Cons.prems have "st' = subprocess_call exe 300 st" by simp
    then have "spawned st' = spawned st @ replicate 1 (exe, 300) \<and> disk st' = disk st \<and> created st' = created st"
      by (simp add: subprocess_call_def)
    then show ?thesis by (intro exI[of _ 1]) simp
  next
    case (Completed returncode elapsed)
    show ?thesis
    proof (cases "sample_co2 profile elapsed")
      case (Inl e)
      with Completed Cons.prems have "st' = subprocess_call exe 300 st" by simp
      then have "spawned st' = spawned st @ replicate 1 (exe, 300) \<and> disk st' = disk st \<and> created st' = created st"
        by (simp add: subprocess_call_def)
      then show ?thesis by (intro exI[of _ 1]) simp
    next
      case (Inr co2_kg)
      with Completed Cons.prems
      have "for_runs profile outcomes exe rest (acc @ [co2_kg]) (subprocess_call exe 300 st) = (exc, out, st')"
        by simp
      from Cons.IH [OF this] obtain k where k: "k \<le> length rest"
        "spawned st' = spawned (subprocess_call exe 300 st) @ replicate k (exe, 300)"
        "disk st' = disk (subprocess_call exe 300 st)" "created st' = created (subprocess_call exe 300 st)"
        by blast
      then have "spawned st' = spawned st @ replicate (Suc k) (exe, 300) \<and> disk st' = disk st \<and> created st' = created st"
        by (simp add: subprocess_call_def)
      with k(1) show ?thesis by (intro exI[of _ "Suc k"]) simp
    qed
  qed
qed

lemma for_runs_samples:
  "for_runs (cpu_count, p, g) outcomes exe idxs acc st = (exc, out, st') \<Longrightarrow>
   \<exists>k\<le>length idxs. length out = length acc + k \<and> take (length acc) out = acc \<and>
     (\<forall>j<k. \<exists>returncode elapsed n. outcomes (idxs ! j) = Completed returncode elapsed \<and>
        cpu_count = Some n \<and>
        out ! (length acc + j) = (p * real_of_int n + g) * elapsed / 3600 * 0.475)"
proof (induction idxs arbitrary: acc st)
  case Nil
  then show ?case by simp
next
  case (Cons a rest)
  show ?case
  proof (cases "outcomes a")
    case (Raised e)
    with Cons.prems have "out = acc" by simp
    then show ?thesis by (intro exI[of _ 0]) simp
  next
    case (Completed returncode elapsed)
    show ?thesis
    proof (cases cpu_count)
      case None
      with Completed Cons.prems have "out = acc" by (simp add: sample_co2_def)
      then show ?thesis by (intro exI[of _ 0]) simp
    next
      case (Some n)
      define co2_kg where "co2_kg = (p * real_of_int n + g) * elapsed / 3600 * 0.475"
      from Some Completed Cons.prems
      have "for_runs (cpu_count, p, g) outcomes exe rest (acc @ [co2_kg]) (subprocess_call exe 300 st) = (exc, out, st')"
        by (simp add: sample_co2_def co2_kg_def)
      from Cons.IH [OF this] obtain k where k: "k \<le> length rest"
        "length out = length (acc @ [co2_kg]) + k" "take (length (acc @ [co2_kg])) out = acc @ [co2_kg]"
        and samples: "\<forall>j<k. \<exists>returncode elapsed n. outcomes (rest ! j) = Completed returncode elapsed \<and>
        cpu_count = Some n \<and>
        out ! (length (acc @ [co2_kg]) + j) = (p * real_of_int n + g) * elapsed / 3600 * 0.475"
        by blast
      have head: "out ! length acc = co2_kg"
      proof -
        have "out ! length acc = take (length (acc @ [co2_kg])) out ! length acc" by simp
        also have "\<dots> = co2_kg" by (simp only: k(3)) simp
        finally show ?thesis .
      qed
      have front: "take (length acc) out = acc"
      proof -
        have "take (length acc) out = take (length acc) (take (length (acc @ [co2_kg])) out)"
          by (simp add: min_def)
        then show ?thesis by (simp only: k(3)) simp
      qed
      have "\<exists>returncode elapsed n. outcomes ((a # rest) ! j) = Completed returncode elapsed \<and>
        cpu_count = Some n \<and>
        out ! (length acc + j) = (p * real_of_int n + g) * elapsed / 3600 * 0.475"
        if "j < Suc k" for j
      proof (cases j)
        case 0
        then show ?thesis using Completed Some head by (simp add: co2_kg_def)
      next
        case (Suc j')
        with that have "j' < k" by simp
        with samples Suc show ?thesis by simp
      qed
      with k(1,2) front show ?thesis by (intro exI[of _ "Suc k"]) simp
    qed
  qed
qed


lemma cpu_power_w_positive:
  "get_system_wattage h = Inr (cpu_count, p, g) \<Longrightarrow> 45 \<le> p"
  by (auto simp: get_system_wattage_unfold split: if_splits)

lemma tracker_all_completed:
  assumes "get_system_wattage h = Inr (Some n, p, g)"
      and "\<forall>i<nat num_runs. outcomes i = Completed (rc i) (t i)"
  shows "universal_emissions_tracker h outcomes exe num_runs st =
           (Inr (if py_range num_runs \<noteq> []
                 then statistics_mean
                        (map (\<lambda>i. (p * real_of_int n + g) * t i / 3600 * 0.475) (py_range num_runs))
                 else 0),
            st\<lparr>spawned := spawned st @ replicate (nat num_runs) (exe, 300)\<rparr>)"
proof -
  from assms(2) have "\<forall>i\<in>set (py_range num_runs). outcomes i = Completed (rc i) (t i)"
    by (simp add: py_range_def)
  from for_runs_all_completed [OF this, of n p g exe "[]" st] assms(1)
  show ?thesis
    by (simp add: universal_emissions_tracker_def py_range_def)
qed

lemma tracker_three_runs:
  assumes "get_system_wattage h = Inr (Some n, p, g)"
      and "\<forall>i<3. outcomes i = Completed (rc i) (t i)"
  shows "fst (universal_emissions_tracker h outcomes exe 3 st) =
           Inr ((p * real_of_int n + g) * ((t 0 + t 1 + t 2) / 3) / 3600 * 0.475)"
proof -
  have all3: "\<forall>i<nat 3. outcomes i = Completed (rc i) (t i)" using assms(2) by simp
  have idx: "py_range 3 = [0, 1, 2]" by (simp add: py_range_def upt_rec)
  from tracker_all_completed [OF assms(1) all3, of exe st]
  show ?thesis
    by (simp add: idx statistics_mean_def field_simps)
qed

section \<open>The samples of the timing loop: claim C3\<close>

text \<open>
  Claim C3. Whenever the loop of \<^verbatim>\<open>universal_emissions_tracker\<close> is left, normally or by an
  exception, every sample in \<^verbatim>\<open>emissions_list\<close> comes from a run that returned, and with
  the values \<open>(cpu_count, cpu_power_w, gpu_power_w)\<close> of the probe the \<open>j\<close>-th sample is
  \<open>energy_kwh * 0.475\<close>, where
  \<open>energy_kwh = (cpu_power_w * cpu_count + gpu_power_w) * elapsed / 3600\<close> and \<open>elapsed\<close> is
  the time measured for run \<open>j\<close>.
\<close>

theorem recorded_samples_formula:
  assumes "get_system_wattage h = Inr (cpu_count, cpu_power_w, gpu_power_w)"
      and "for_runs (cpu_count, cpu_power_w, gpu_power_w) outcomes executable
             (py_range num_runs) [] st = (exc, emissions_list, st')"
      and "j < length emissions_list"
  shows "\<exists>returncode elapsed n energy_kwh.
           outcomes j = Completed returncode elapsed \<and> cpu_count = Some n \<and>
           energy_kwh = (cpu_power_w * real_of_int n + gpu_power_w) * elapsed / 3600 \<and>
           emissions_list ! j = energy_kwh * 0.475"
proof -
  from for_runs_samples [OF assms(2)] obtain k where
    k: "k \<le> length (py_range num_runs)" "length emissions_list = k"
    and samples: "\<forall>j<k. \<exists>returncode elapsed n.
        outcomes (py_range num_runs ! j) = Completed returncode elapsed \<and> cpu_count = Some n \<and>
        emissions_list ! j = (cpu_power_w * real_of_int n + gpu_power_w) * elapsed / 3600 * 0.475"
    by auto
  from assms(3) k have "j < nat num_runs" by (simp add: py_range_def)
  then have "py_range num_runs ! j = j" by (simp add: py_range_def)
  with samples assms(3) k(2) obtain returncode elapsed n where
    "outcomes j = Completed returncode elapsed" "cpu_count = Some n"
    "emissions_list ! j = (cpu_power_w * real_of_int n + gpu_power_w) * elapsed / 3600 * 0.475"
    by force
  then show ?thesis by blast
qed

theorem recorded_samples_formula_witness:
  "get_system_wattage linux_host = Inr (Some 4, 45, 0) \<and>
   for_runs (Some 4, 45, 0) second_run_times_out [''./a.out''] (py_range 3) [] init_state =
     (Some TimeoutExpired, [171 / 2],
      init_state\<lparr>spawned := [([''./a.out''], 300), ([''./a.out''], 300)]\<rparr>) \<and>
   (\<exists>returncode elapsed n energy_kwh.
      second_run_times_out 0 = Completed returncode elapsed \<and> Some (4::int) = Some n \<and>
      energy_kwh = (45 * real_of_int n + 0) * elapsed / 3600 \<and>
      [171 / 2] ! 0 = energy_kwh * 0.475)"
proof -
  have w: "get_system_wattage linux_host = Inr (Some 4, 45, 0)"
    by (simp add: get_system_wattage_unfold linux_host_def)
  have l: "for_runs (Some 4, 45, 0) second_run_times_out [''./a.out''] (py_range 3) [] init_state =
     (Some TimeoutExpired, [171 / 2],
      init_state\<lparr>spawned := [([''./a.out''], 300), ([''./a.out''], 300)]\<rparr>)"
    by (simp add: py_range_def upt_rec second_run_times_out_def sample_co2_def
          subprocess_call_def init_state_def)
  have j: "(0::nat) < length [171 / 2 :: real]" by simp
  from recorded_samples_formula [OF w l j] w l show ?thesis by simp
qed

section \<open>The result of the timing loop: claim C2\<close>




section \<open>Equal runs, monotonicity and doubling: claim C4\<close>

text \<open>
  Claim C4. With \<open>num_runs = 3\<close>, a known CPU count and three runs that return: if every run
  measures the same time \<open>t0\<close>, the estimate is the CO2 value of a single run of \<open>t0\<close>
  seconds; doubling the time of every run doubles the estimate; the estimate does not
  decrease when the measured times grow (CPU count and GPU watts not negative), nor when
  the watts per CPU and the GPU watts grow (CPU count and times not negative).
\<close>

theorem equal_runs_estimate:
  assumes prof: "get_system_wattage h = Inr (Some n, p, g)"
      and runs3: "\<forall>i<3. outcomes i = Completed (rc i) (t i)"
  shows "((\<forall>i<3. t i = t0) \<longrightarrow>
            fst (universal_emissions_tracker h outcomes exe 3 st) =
              Inr ((p * real_of_int n + g) * t0 / 3600 * 0.475)) \<and>
         ((\<forall>i<3. doubled i = Completed (rc2 i) (2 * t i)) \<longrightarrow>
            (\<exists>v. fst (universal_emissions_tracker h outcomes exe 3 st) = Inr v \<and>
                 fst (universal_emissions_tracker h doubled exe 3 st) = Inr (2 * v))) \<and>
         ((\<forall>i<3. longer i = Completed (rc3 i) (t3 i) \<and> t i \<le> t3 i) \<and> 0 \<le> n \<and> 0 \<le> g \<longrightarrow>
            (\<exists>v1 v2. fst (universal_emissions_tracker h outcomes exe 3 st) = Inr v1 \<and>
                 fst (universal_emissions_tracker h longer exe 3 st) = Inr v2 \<and> v1 \<le> v2)) \<and>
         (get_system_wattage h2 = Inr (Some n, p2, g2) \<and> p \<le> p2 \<and> g \<le> g2 \<and> 0 \<le> n \<and>
          (\<forall>i<3. 0 \<le> t i) \<longrightarrow>
            (\<exists>v1 v2. fst (universal_emissions_tracker h outcomes exe 3 st) = Inr v1 \<and>
                 fst (universal_emissions_tracker h2 outcomes exe 3 st) = Inr v2 \<and> v1 \<le> v2))"
proof (intro conjI impI)
  note base = tracker_three_runs [OF prof runs3, of exe st]
  {
    assume "\<forall>i<3. t i = t0"
    then have "t 0 = t0" "t 1 = t0" "t 2 = t0" by simp_all
    with base show "fst (universal_emissions_tracker h outcomes exe 3 st) =
              Inr ((p * real_of_int n + g) * t0 / 3600 * 0.475)"
      by simp
  }
  {
    assume "\<forall>i<3. doubled i = Completed (rc2 i) (2 * t i)"
    from tracker_three_runs [OF prof this, of exe st]
    have "fst (universal_emissions_tracker h doubled exe 3 st) =
            Inr (2 * ((p * real_of_int n + g) * ((t 0 + t 1 + t 2) / 3) / 3600 * 0.475))"
      by (simp add: algebra_simps)
    with base
    show "\<exists>v. fst (universal_emissions_tracker h outcomes exe 3 st) = Inr v \<and>
                 fst (universal_emissions_tracker h doubled exe 3 st) = Inr (2 * v)"
      by blast
  }
  {
    assume a: "(\<forall>i<3. longer i = Completed (rc3 i) (t3 i) \<and> t i \<le> t3 i) \<and> 0 \<le> n \<and> 0 \<le> g"
    then have l: "\<forall>i<3. longer i = Completed (rc3 i) (t3 i)" by simp
    from a have "t 0 \<le> t3 0" "t 1 \<le> t3 1" "t 2 \<le> t3 2" by simp_all
    then have sum: "(t 0 + t 1 + t 2) / 3 \<le> (t3 0 + t3 1 + t3 2) / 3" by simp
    from cpu_power_w_positive [OF prof] a have "0 \<le> p * real_of_int n + g" by simp
    from mult_left_mono [OF sum this]
    have "(p * real_of_int n + g) * ((t 0 + t 1 + t 2) / 3) / 3600 * 0.475
            \<le> (p * real_of_int n + g) * ((t3 0 + t3 1 + t3 2) / 3) / 3600 * 0.475"
      by simp
    with base tracker_three_runs [OF prof l, of exe st]
    show "\<exists>v1 v2. fst (universal_emissions_tracker h outcomes exe 3 st) = Inr v1 \<and>
                 fst (universal_emissions_tracker h longer exe 3 st) = Inr v2 \<and> v1 \<le> v2"
      by blast
  }
  {
    assume a: "get_system_wattage h2 = Inr (Some n, p2, g2) \<and> p \<le> p2 \<and> g \<le> g2 \<and> 0 \<le> n \<and>
          (\<forall>i<3. 0 \<le> t i)"
    then have prof2: "get_system_wattage h2 = Inr (Some n, p2, g2)" by simp
    from a have "0 \<le> t 0" "0 \<le> t 1" "0 \<le> t 2" by simp_all
    then have time: "0 \<le> (t 0 + t 1 + t 2) / 3" by simp
    from a have "p * real_of_int n \<le> p2 * real_of_int n" by (simp add: mult_right_mono)
    with a have "p * real_of_int n + g \<le> p2 * real_of_int n + g2" by simp
    from mult_right_mono [OF this time]
    have "(p * real_of_int n + g) * ((t 0 + t 1 + t 2) / 3) / 3600 * 0.475
            \<le> (p2 * real_of_int n + g2) * ((t 0 + t 1 + t 2) / 3) / 3600 * 0.475"
      by simp
    with base tracker_three_runs [OF prof2 runs3, of exe st]
    show "\<exists>v1 v2. fst (universal_emissions_tracker h outcomes exe 3 st) = Inr v1 \<and>
                 fst (universal_emissions_tracker h2 outcomes exe 3 st) = Inr v2 \<and> v1 \<le> v2"
      by blast
  }
qed

theorem equal_runs_estimate_witness:
  "get_system_wattage linux_host = Inr (Some 4, 45, 0) \<and>
   steady_runs 10 0 = Completed 0 10 \<and> steady_runs 10 1 = Completed 0 10 \<and>
   steady_runs 10 2 = Completed 0 10 \<and>
   fst (universal_emissions_tracker linux_host (steady_runs 10) [''./a.out''] 3 init_state) =
     Inr (19 / 80) \<and>
   (\<exists>v. fst (universal_emissions_tracker linux_host (steady_runs 10) [''./a.out''] 3 init_state)
          = Inr v \<and>
        fst (universal_emissions_tracker linux_host (steady_runs 20) [''./a.out''] 3 init_state)
          = Inr (2 * v)) \<and>
   (\<exists>v1 v2.
        fst (universal_emissions_tracker linux_host (steady_runs 10) [''./a.out''] 3 init_state)
          = Inr v1 \<and>
        fst (universal_emissions_tracker linux_host (steady_runs 20) [''./a.out''] 3 init_state)
          = Inr v2 \<and> v1 \<le> v2) \<and>
   (\<exists>v1 v2.
        fst (universal_emissions_tracker linux_host (steady_runs 10) [''./a.out''] 3 init_state)
          = Inr v1 \<and>
        fst (universal_emissions_tracker windows_gpu_host (steady_runs 10) [''./a.out''] 3
               init_state) = Inr v2 \<and> v1 \<le> v2)"
proof -
  have w1: "get_system_wattage linux_host = Inr (Some 4, 45, 0)"
    by (simp add: get_system_wattage_unfold linux_host_def)
  have r: "\<forall>i<3. steady_runs 10 i = Completed 0 10"
    by (simp add: steady_runs_def)
  note inst = equal_runs_estimate [where h = linux_host and n = 4 and p = 45 and g = 0
      and outcomes = "steady_runs 10" and rc = "\<lambda>i. 0" and t = "\<lambda>i. 10" and ?t0.0 = 10
      and doubled = "steady_runs 20" and ?rc2.0 = "\<lambda>i. 0"
      and longer = "steady_runs 20" and ?rc3.0 = "\<lambda>i. 0" and ?t3.0 = "\<lambda>i. 20"
      and ?h2.0 = windows_gpu_host and ?p2.0 = 65 and ?g2.0 = 6144
      and exe = "[''./a.out'']" and st = init_state, OF w1 r]
  have same: "\<forall>i<3. (10::real) = 10" by simp
  have dbl: "\<forall>i<3. steady_runs 20 i = Completed 0 (2 * 10)"
    by (simp add: steady_runs_def)
  have lng: "(\<forall>i<3. steady_runs 20 i = Completed 0 20 \<and> (10::real) \<le> 20) \<and> (0::int) \<le> 4 \<and>
      (0::real) \<le> 0"
    by (simp add: steady_runs_def)
  have wat: "get_system_wattage windows_gpu_host = Inr (Some 4, 65, 6144) \<and> (45::real) \<le> 65 \<and>
      (0::real) \<le> 6144 \<and> (0::int) \<le> 4 \<and> (\<forall>i<3. (0::real) \<le> 10)"
    by (simp add: get_system_wattage_unfold windows_gpu_host_def)
  from inst same have
    "fst (universal_emissions_tracker linux_host (steady_runs 10) [''./a.out''] 3 init_state) =
       Inr ((45 * real_of_int 4 + 0) * 10 / 3600 * 0.475)"
    by blast
  then have one:
    "fst (universal_emissions_tracker linux_host (steady_runs 10) [''./a.out''] 3 init_state) =
       Inr (19 / 80)"
    by simp
  from inst dbl lng wat have rest:
    "(\<exists>v. fst (universal_emissions_tracker linux_host (steady_runs 10) [''./a.out''] 3 init_state)
          = Inr v \<and>
        fst (universal_emissions_tracker linux_host (steady_runs 20) [''./a.out''] 3 init_state)
          = Inr (2 * v)) \<and>
   (\<exists>v1 v2.
        fst (universal_emissions_tracker linux_host (steady_runs 10) [''./a.out''] 3 init_state)
          = Inr v1 \<and>
        fst (universal_emissions_tracker linux_host (steady_runs 20) [''./a.out''] 3 init_state)
          = Inr v2 \<and> v1 \<le> v2) \<and>
   (\<exists>v1 v2.
        fst (universal_emissions_tracker linux_host (steady_runs 10) [''./a.out''] 3 init_state)
          = Inr v1 \<and>
        fst (universal_emissions_tracker windows_gpu_host (steady_runs 10) [''./a.out''] 3
               init_state) = Inr v2 \<and> v1 \<le> v2)"
    by blast
  have each: "steady_runs 10 0 = Completed 0 10 \<and> steady_runs 10 1 = Completed 0 10 \<and>
      steady_runs 10 2 = Completed 0 10"
    by (simp add: steady_runs_def)
  from w1 each one rest show ?thesis by blast
qed

section \<open>Facts about the estimator\<close>

lemma tracker_returns:
  "\<exists>v st'. universal_emissions_tracker h outcomes exe num_runs st = (Inr v, st') \<and>
      disk st' = disk st \<and> created st' = created st"
proof -
  obtain profile where p: "get_system_wattage h = Inr profile"
    by (simp add: get_system_wattage_unfold)
  obtain exc out s where
    r: "for_runs profile outcomes exe (py_range num_runs) [] st = (exc, out, s)"
    using prod_cases3 by blast
  from for_runs_spawned [OF r] have "disk s = disk st" "created s = created st" by auto
  with p r show ?thesis
    by (cases exc) (simp_all add: universal_emissions_tracker_def)
qed






lemma python_branch_created:
  "python_branch ev test_params st = (vars, st', r) \<Longrightarrow>
   created st' \<subseteq> created st \<union> {p. p \<noteq> [] \<and> (fst vars = Some p \<or> snd vars = Some p)}"
  by (auto simp: python_branch_def named_temporary_file_def subprocess_call_def Let_def
      split: sum.splits option.splits run_outcome.splits)


lemma tracker_frame:
  "universal_emissions_tracker h outcomes exe num_runs st = (r, st') \<Longrightarrow>
   created st' = created st \<and> disk st' = disk st \<and> (\<exists>v. r = Inr v)"
  using tracker_returns [of h outcomes exe num_runs st] by auto

lemma c_branch_created:
  assumes "c_branch ev language st = (vars, st', r)"
  shows "created st' \<subseteq> created st \<union> {p. p \<noteq> [] \<and> (fst vars = Some p \<or> snd vars = Some p)}"
proof (cases "mktemp ev")
  case (Inl e)
  with assms show ?thesis by (simp add: c_branch_def)
next
  case (Inr stem)
  show ?thesis
  proof (cases "write_error ev")
    case (Some e)
    with Inr assms show ?thesis
      by (auto simp: c_branch_def Let_def named_temporary_file_def split: if_splits)
  next
    case None
    show ?thesis
    proof (cases "gcc_run ev")
      case (Raised e)
      with Inr None assms show ?thesis
        by (auto simp: c_branch_def Let_def named_temporary_file_def subprocess_call_def
            split: if_splits)
    next
      case (Completed returncode elapsed)
      show ?thesis
      proof (cases "returncode = 0")
        case False
        with Completed Inr None assms show ?thesis
          by (auto simp: c_branch_def Let_def named_temporary_file_def subprocess_call_def
              split: if_splits)
      next
        case True
        with Completed Inr None assms show ?thesis
          by (auto simp: c_branch_def Let_def named_temporary_file_def subprocess_call_def
              split: if_splits prod.splits dest!: tracker_frame)
      qed
    qed
  qed
qed


lemma try_body_created:
  assumes "try_body ev test_params language st = (vars, st', r)"
  shows "created st' \<subseteq> created st \<union> {p. p \<noteq> [] \<and> (fst vars = Some p \<or> snd vars = Some p)}"
proof (cases "py_lower language")
  case (Inl e)
  with assms show ?thesis by (simp add: try_body_def)
next
  case (Inr l)
  consider "l = ''python''" | "l \<noteq> ''python''" "l \<in> set [''c'', ''cpp'']"
    | "l \<noteq> ''python''" "l \<notin> set [''c'', ''cpp'']"
    by blast
  then show ?thesis
  proof cases
    case 1
    with Inr assms have "python_branch ev test_params st = (vars, st', r)"
      by (simp add: try_body_def)
    then show ?thesis by (rule python_branch_created)
  next
    case 2
    with Inr assms have "c_branch ev l st = (vars, st', r)"
      by (simp add: try_body_def)
    then show ?thesis by (rule c_branch_created)
  next
    case 3
    obtain v s where t: "universal_emissions_tracker (the_host ev) (runs ev) [''echo'', ''ok''] 3 st
        = (Inr v, s)" "created s = created st"
      using tracker_returns by blast
    with 3 Inr assms have "st' = s" by (simp add: try_body_def)
    with t(2) show ?thesis by auto
  qed
qed


lemma finally_block_created: "created (finally_block vars st) = created st"
  by (cases vars) (simp add: finally_block_def remove_if_exists_def split: option.splits)

lemma finally_block_removes:
  "p \<noteq> [] \<Longrightarrow> fst vars = Some p \<or> snd vars = Some p \<Longrightarrow> p \<notin> disk (finally_block vars st)"
  by (cases vars) (auto simp: finally_block_def remove_if_exists_def split: option.splits)

lemma c_branch_compile_failure:
  assumes "gcc_run ev = Completed returncode elapsed" and "returncode \<noteq> 0"
  shows "\<exists>vars st1 r. c_branch ev l st = (vars, st1, r) \<and> (r = Inr 0 \<or> (\<exists>e. r = Inl e))"
proof (cases "mktemp ev")
  case (Inl e)
  then show ?thesis by (simp add: c_branch_def)
next
  case (Inr stem)
  with assms show ?thesis
    by (cases "write_error ev") (simp_all add: c_branch_def Let_def)
qed


section \<open>The estimator returns: claim C1\<close>




section \<open>Compile failure: claim C5\<close>

text \<open>
  Claim C5. For every source string and a language tag that is "c" or "cpp" in any letter
  case, when the compiler returns a non-zero code the estimator returns exactly 0.0 and
  does not raise.
\<close>

theorem compile_failure_zero:
  assumes "py_lower language = Inr l" and "l = ''c'' \<or> l = ''cpp''"
      and "gcc_run ev = Completed returncode elapsed" and "returncode \<noteq> 0"
  shows "fst (run_code_and_track_emissions ev (PyStr code) test_params language st) = Inr 0"
proof (cases "str_strip code = []")
  case True
  then show ?thesis by (simp add: run_code_and_track_emissions_def)
next
  case False
  from assms(2) have l: "l \<noteq> ''python''" "l \<in> set [''c'', ''cpp'']" by auto
  from c_branch_compile_failure [OF assms(3,4)] obtain vars st1 r where
    c: "c_branch ev l st = (vars, st1, r)" "r = Inr 0 \<or> (\<exists>e. r = Inl e)"
    by blast
  from assms(1) l c(1) have "try_body ev test_params language st = (vars, st1, r)"
    by (simp add: try_body_def)
  with False c(2) show ?thesis
    by (auto simp: run_code_and_track_emissions_def)
qed

theorem compile_failure_zero_witness:
  "py_lower (PyStr ''C'') = Inr ''c'' \<and> gcc_run failing_gcc_env = Completed 1 2 \<and> (1::int) \<noteq> 0 \<and>
   fst (run_code_and_track_emissions failing_gcc_env (PyStr ''int main( {'') test_case_params
          (PyStr ''C'') init_state) = Inr 0"
proof -
  have a: "py_lower (PyStr ''C'') = Inr ''c''" by (simp add: str_lower_def)
  have b: "''c'' = ''c'' \<or> ''c'' = ''cpp''" by simp
  have c: "gcc_run failing_gcc_env = Completed 1 2"
    by (simp add: failing_gcc_env_def)
  have d: "(1::int) \<noteq> 0" by simp
  from compile_failure_zero [OF a b c d] a c d show ?thesis by blast
qed

section \<open>Cleanup: claim C7\<close>

text \<open>
  Claim C7. After every call of \<^verbatim>\<open>run_code_and_track_emissions\<close>, whatever it returned or
  raised and whichever step failed, no path created during the call (the temporary script
  or source file, the binary written by the compiler) is on the disk.
\<close>

theorem temp_files_removed:
  "(created (snd (run_code_and_track_emissions ev code test_params language st)) - created st)
     \<inter> disk (snd (run_code_and_track_emissions ev code test_params language st)) = {}"
proof (cases "py_strip code")
  case (Inl e)
  then show ?thesis by (simp add: run_code_and_track_emissions_def)
next
  case (Inr stripped)
  show ?thesis
  proof (cases "stripped = []")
    case True
    with Inr show ?thesis by (simp add: run_code_and_track_emissions_def)
  next
    case False
    obtain vars st1 r where t: "try_body ev test_params language st = (vars, st1, r)"
      using prod_cases3 by blast
    with Inr False
    have fin: "snd (run_code_and_track_emissions ev code test_params language st)
                 = finally_block vars st1"
      by (cases r) (simp_all add: run_code_and_track_emissions_def)
    have "p \<notin> disk (finally_block vars st1)"
      if "p \<in> created (finally_block vars st1) - created st" for p
    proof -
      from that try_body_created [OF t]
      have "p \<noteq> [] \<and> (fst vars = Some p \<or> snd vars = Some p)"
        by (auto simp: finally_block_created)
      then show ?thesis by (simp add: finally_block_removes)
    qed
    with fin show ?thesis by auto
  qed
qed

theorem temp_files_removed_witness:
  "created (snd (run_code_and_track_emissions compiling_env (PyStr ''int main(){return 0;}'')
                   test_case_params (PyStr ''c'') init_state))
     = {''/tmp/tmpk3v9x_q2.c'', ''/tmp/tmpk3v9x_q2''} \<and>
   disk (snd (run_code_and_track_emissions compiling_env (PyStr ''int main(){return 0;}'')
                test_case_params (PyStr ''c'') init_state)) = {} \<and>
   (created (snd (run_code_and_track_emissions compiling_env (PyStr ''int main(){return 0;}'')
                    test_case_params (PyStr ''c'') init_state)) - created init_state)
     \<inter> disk (snd (run_code_and_track_emissions compiling_env (PyStr ''int main(){return 0;}'')
                      test_case_params (PyStr ''c'') init_state)) = {}"
proof -
  have s: "str_strip ''int main(){return 0;}'' \<noteq> []"
    by (simp add: str_strip_def py_isspace_def)
  have w: "get_system_wattage linux_host = Inr (Some 4, 45, 0)"
    by (simp add: get_system_wattage_unfold linux_host_def)
  have r: "\<forall>i<nat 3. steady_runs 3600 i = Completed 0 3600"
    by (simp add: steady_runs_def)
  have x: "str_replace ''.c'' [] ''/tmp/tmpk3v9x_q2.c'' = ''/tmp/tmpk3v9x_q2''"
    by simp
  have rep: "replicate 3 y = [y, y, y]" for y :: "string list \<times> nat"
    by (simp add: numeral_3_eq_3)
  have c: "c_branch compiling_env ''c'' init_state =
             ((Some ''/tmp/tmpk3v9x_q2.c'', Some ''/tmp/tmpk3v9x_q2''),
              \<lparr>disk = {''/tmp/tmpk3v9x_q2'', ''/tmp/tmpk3v9x_q2.c''},
               created = {''/tmp/tmpk3v9x_q2'', ''/tmp/tmpk3v9x_q2.c''},
               spawned = [([''gcc'', ''/tmp/tmpk3v9x_q2.c'', ''-o'', ''/tmp/tmpk3v9x_q2''], 120),
                          ([''/tmp/tmpk3v9x_q2''], 300), ([''/tmp/tmpk3v9x_q2''], 300),
                          ([''/tmp/tmpk3v9x_q2''], 300)]\<rparr>,
              Inr (171 / 2))"
    by (simp add: c_branch_def compiling_env_def Let_def x named_temporary_file_def
        subprocess_call_def init_state_def rep
        tracker_all_completed [OF w r] py_range_def upt_rec statistics_mean_def)
  have t: "try_body compiling_env test_case_params (PyStr ''c'') init_state =
             ((Some ''/tmp/tmpk3v9x_q2.c'', Some ''/tmp/tmpk3v9x_q2''),
              \<lparr>disk = {''/tmp/tmpk3v9x_q2'', ''/tmp/tmpk3v9x_q2.c''},
               created = {''/tmp/tmpk3v9x_q2'', ''/tmp/tmpk3v9x_q2.c''},
               spawned = [([''gcc'', ''/tmp/tmpk3v9x_q2.c'', ''-o'', ''/tmp/tmpk3v9x_q2''], 120),
                          ([''/tmp/tmpk3v9x_q2''], 300), ([''/tmp/tmpk3v9x_q2''], 300),
                          ([''/tmp/tmpk3v9x_q2''], 300)]\<rparr>,
              Inr (171 / 2))"
    by (simp add: try_body_def str_lower_def c)
  have f: "snd (run_code_and_track_emissions compiling_env (PyStr ''int main(){return 0;}'')
                   test_case_params (PyStr ''c'') init_state) =
            \<lparr>disk = {}, created = {''/tmp/tmpk3v9x_q2'', ''/tmp/tmpk3v9x_q2.c''},
               spawned = [([''gcc'', ''/tmp/tmpk3v9x_q2.c'', ''-o'', ''/tmp/tmpk3v9x_q2''], 120),
                          ([''/tmp/tmpk3v9x_q2''], 300), ([''/tmp/tmpk3v9x_q2''], 300),
                          ([''/tmp/tmpk3v9x_q2''], 300)]\<rparr>"
    using s by (auto simp: run_code_and_track_emissions_def t finally_block_def remove_if_exists_def)
  from temp_files_removed [of compiling_env "PyStr ''int main(){return 0;}''" test_case_params
      "PyStr ''c''" init_state] f
  show ?thesis by (auto simp: init_state_def)
qed

section \<open>Empty code at \<^verbatim>\<open>POST /optimize\<close>: claim C9\<close>



end
